theory Spec2Isabelle
  imports Complex_Main "HOL-Library.AList"
begin

section \<open>Market economics: \<^verbatim>\<open>engine/market_spec.py\<close>\<close>

text \<open>
  Python's \<^verbatim>\<open>float\<close> is modelled by \<^typ>\<open>real\<close>: the arithmetic is exact, rounding
  and the special values (infinities, NaN) are outside the model. \<^verbatim>\<open>Optional[float]\<close> is
  \<^typ>\<open>real option\<close>, \<^verbatim>\<open>str\<close> is \<^typ>\<open>string\<close>. A Python exception is a value of
  \<open>py_error\<close>, and a function that can raise returns \<open>py_error + 'a\<close> with \<open>Inl\<close> the
  exception.
\<close>

datatype py_error = ZeroDivisionError | AdapterError string

text \<open>Python's \<^verbatim>\<open>a / b\<close> on floats: division by zero raises.\<close>

definition py_div :: "real \<Rightarrow> real \<Rightarrow> py_error + real" where
  "py_div a b = (if b = 0 then Inl ZeroDivisionError else Inr (a / b))"

text \<open>
  Python's \<^verbatim>\<open>x or d\<close> for an optional float \<open>x\<close>: \<^verbatim>\<open>None\<close> and \<^verbatim>\<open>0.0\<close> are both
  falsy, so either gives \<open>d\<close>.
\<close>

definition py_or :: "real option \<Rightarrow> real \<Rightarrow> real" where
  "py_or x d = (case x of None \<Rightarrow> d | Some v \<Rightarrow> if v = 0 then d else v)"

text \<open>The truth value of an optional float in a condition: \<^verbatim>\<open>if x:\<close>.\<close>

definition py_truthy :: "real option \<Rightarrow> bool" where
  "py_truthy x = (case x of None \<Rightarrow> False | Some v \<Rightarrow> v \<noteq> 0)"

record MarketSpec =
  symbol :: string
  exchange :: string
  asset_class :: string
  market_type :: string
  leverage :: real
  contract_size :: "real option"
  pip_value :: "real option"
  min_trade_size :: real
  price_precision :: int
  quantity_precision :: int
  commission_rate :: real
  commission_per_contract :: "real option"
  slippage_ticks :: real
  initial_margin_per_contract :: "real option"
  intraday_margin_per_contract :: "real option"
  maintenance_margin_rate :: "real option"
  margin_mode :: string

text \<open>
  \<^verbatim>\<open>MarketSpec.calculate_margin(entry_price, quantity, is_intraday=True)\<close>. Both
  leverage-based branches divide by \<^verbatim>\<open>self.leverage\<close>.
\<close>

definition calculate_margin :: "MarketSpec \<Rightarrow> real \<Rightarrow> real \<Rightarrow> bool \<Rightarrow> py_error + real" where
  "calculate_margin self entry_price quantity is_intraday =
     (if asset_class self = ''futures'' then
        (if initial_margin_per_contract self \<noteq> None then
           (if is_intraday \<and> intraday_margin_per_contract self \<noteq> None
            then Inr (\<bar>quantity\<bar> * the (intraday_margin_per_contract self))
            else Inr (\<bar>quantity\<bar> * the (initial_margin_per_contract self)))
         else py_div (entry_price * \<bar>quantity\<bar>) (leverage self))
      else py_div (entry_price * \<bar>quantity\<bar>) (leverage self))"

text \<open>\<^verbatim>\<open>MarketSpec.calculate_maintenance_margin(entry_price, quantity, current_price=None)\<close>.\<close>

definition calculate_maintenance_margin ::
  "MarketSpec \<Rightarrow> real \<Rightarrow> real \<Rightarrow> real option \<Rightarrow> py_error + real" where
  "calculate_maintenance_margin self entry_price quantity current_price =
     (let price = py_or current_price entry_price;
          notional_value = price * \<bar>quantity\<bar>
      in if asset_class self = ''futures'' then
           (if maintenance_margin_rate self \<noteq> None
            then Inr (notional_value * the (maintenance_margin_rate self))
            else if initial_margin_per_contract self \<noteq> None
            then Inr (\<bar>quantity\<bar> * the (initial_margin_per_contract self))
            else calculate_margin self entry_price quantity True)
         else calculate_margin self entry_price quantity True)"

text \<open>\<^verbatim>\<open>MarketSpec.calculate_unrealized_pnl\<close> and \<^verbatim>\<open>MarketSpec.calculate_realized_pnl\<close>.\<close>

definition calculate_unrealized_pnl :: "MarketSpec \<Rightarrow> real \<Rightarrow> real \<Rightarrow> real \<Rightarrow> string \<Rightarrow> real" where
  "calculate_unrealized_pnl self entry_price current_price quantity direction =
     (if direction = ''long'' then (current_price - entry_price) * quantity
      else (entry_price - current_price) * quantity)"

definition calculate_realized_pnl :: "MarketSpec \<Rightarrow> real \<Rightarrow> real \<Rightarrow> real \<Rightarrow> string \<Rightarrow> real" where
  "calculate_realized_pnl self entry_price exit_price quantity direction =
     calculate_unrealized_pnl self entry_price exit_price quantity direction"

record Broker =
  market_spec :: MarketSpec
  margin_call_level :: real

text \<open>\<^verbatim>\<open>Broker.calculate_margin_required\<close>: the market spec's margin, \<^verbatim>\<open>is_intraday\<close> at its default.\<close>

definition calculate_margin_required :: "Broker \<Rightarrow> real \<Rightarrow> real \<Rightarrow> py_error + real" where
  "calculate_margin_required self entry_price quantity =
     calculate_margin (market_spec self) entry_price quantity True"

text \<open>
  \<^verbatim>\<open>Broker.can_afford_position\<close>. The margin is computed first, so its exception wins;
  \<^verbatim>\<open>commission_rate or self.market_spec.commission_rate\<close> is \<open>py_or\<close>.
\<close>

definition can_afford_position ::
  "Broker \<Rightarrow> real \<Rightarrow> real \<Rightarrow> real \<Rightarrow> real option \<Rightarrow> py_error + (bool \<times> real)" where
  "can_afford_position self entry_price quantity available_cash commission_rate_arg =
     (case calculate_margin_required self entry_price quantity of
        Inl e \<Rightarrow> Inl e
      | Inr margin \<Rightarrow>
          (let rate = py_or commission_rate_arg (commission_rate (market_spec self));
               commission = entry_price * quantity * rate;
               required_cash = margin + commission
           in Inr (required_cash \<le> available_cash, required_cash)))"

text \<open>
  \<^verbatim>\<open>Broker.check_margin_call\<close>. The conditional expression's \<^verbatim>\<open>float('inf')\<close> arm stands
  after the early return on \<^verbatim>\<open>margin_used <= 0\<close>; there \<^verbatim>\<open>inf < level\<close> is false.
\<close>

definition check_margin_call :: "Broker \<Rightarrow> real \<Rightarrow> real \<Rightarrow> bool" where
  "check_margin_call self equity margin_used =
     (if margin_used \<le> 0 then False
      else if equity \<le> 0 then True
      else if margin_used > 0 then equity / margin_used < margin_call_level self
      else False)"

text \<open>
  \<^verbatim>\<open>Broker.adjust_quantity_for_cash\<close>. \<open>max_affordable_qty\<close> is the local of that name:
  two divisions, each of which can raise.
\<close>

definition max_affordable_qty :: "Broker \<Rightarrow> real \<Rightarrow> real \<Rightarrow> real option \<Rightarrow> py_error + real" where
  "max_affordable_qty self entry_price available_cash commission_rate_arg =
     (let rate = py_or commission_rate_arg (commission_rate (market_spec self))
      in case py_div 1 (leverage (market_spec self)) of
           Inl e \<Rightarrow> Inl e
         | Inr per_unit \<Rightarrow> py_div available_cash (entry_price * (per_unit + rate)))"

definition adjust_quantity_for_cash ::
  "Broker \<Rightarrow> real \<Rightarrow> real \<Rightarrow> real \<Rightarrow> real option \<Rightarrow> py_error + real" where
  "adjust_quantity_for_cash self entry_price desired_quantity available_cash commission_rate_arg =
     (case max_affordable_qty self entry_price available_cash commission_rate_arg of
        Inl e \<Rightarrow> Inl e
      | Inr q \<Rightarrow> Inr (min desired_quantity q))"

text \<open>
  The same broker on a market that charges no commission: what a call with the rate left
  out computes there is the zero-commission result.
\<close>

definition zero_commission :: "Broker \<Rightarrow> Broker" where
  "zero_commission b = b\<lparr>market_spec := (market_spec b)\<lparr>commission_rate := 0\<rparr>\<rparr>"

section \<open>Training validation: \<^verbatim>\<open>validation/training_validator.py\<close>\<close>

text \<open>
  A Python \<^verbatim>\<open>dict\<close> with string keys is an association list in insertion order.
  \<open>dict_get\<close> is \<^verbatim>\<open>d.get(k, default)\<close>, \<open>dict_set\<close> is \<^verbatim>\<open>d[k] = v\<close> and \<open>dict_merge\<close> is
  \<^verbatim>\<open>{**a, **b}\<close>: the entries of \<open>b\<close> are written over \<open>a\<close> one after the other.
  \<open>get_or\<close> is \<^verbatim>\<open>.get\<close> on a result dict whose optional entries are record fields.
\<close>

type_synonym 'v dict = "(string \<times> 'v) list"

definition dict_get :: "'v dict \<Rightarrow> string \<Rightarrow> 'v \<Rightarrow> 'v" where
  "dict_get d k dflt = (case map_of d k of None \<Rightarrow> dflt | Some v \<Rightarrow> v)"

definition dict_set :: "'v dict \<Rightarrow> string \<Rightarrow> 'v \<Rightarrow> 'v dict" where
  "dict_set d k v = AList.update k v d"

definition dict_merge :: "'v dict \<Rightarrow> 'v dict \<Rightarrow> 'v dict" where
  "dict_merge a b = foldl (\<lambda>d (k, v). dict_set d k v) a b"

definition get_or :: "'a option \<Rightarrow> 'a \<Rightarrow> 'a" where
  "get_or x dflt = (case x of None \<Rightarrow> dflt | Some v \<Rightarrow> v)"

text \<open>Python's \<^verbatim>\<open>sum\<close> over a list of booleans counts the true ones.\<close>

definition py_sum :: "bool list \<Rightarrow> nat" where
  "py_sum bs = length (filter (\<lambda>b. b) bs)"

text \<open>
  The threshold bundle \<^verbatim>\<open>TrainingValidationCriteria\<close> (declared in \<^verbatim>\<open>config.schema\<close>), with
  the fields the validator reads; \<^verbatim>\<open>BacktestResult\<close> with the one field the quality check
  reads; \<^verbatim>\<open>TestSuitability\<close>; the per-test result dict with its optional entries
  \<^verbatim>\<open>skipped\<close> and \<^verbatim>\<open>p_values\<close>; and \<^verbatim>\<open>MonteCarloSuiteResult\<close>.
\<close>

record TrainingValidationCriteria =
  training_min_profit_factor :: real
  training_min_sharpe :: real
  training_min_trades :: int
  min_mc_score :: real
  min_mc_percentile :: real
  monte_carlo_p_value_max :: real
  sensitivity_max_cv :: real

record BacktestResult =
  total_trades :: int

record TestSuitability =
  suitable :: bool
  reason :: string
  alternatives :: "string list"
  priority :: real

record mc_test =
  skipped :: "bool option"
  p_values :: "real dict option"

record MonteCarloSuiteResult =
  permutation :: mc_test
  bootstrap :: mc_test
  randomized_entry :: mc_test
  combined :: "real dict"

text \<open>\<^verbatim>\<open>TrainingValidator._check_backtest_quality\<close>.\<close>

definition check_backtest_quality ::
  "TrainingValidationCriteria \<Rightarrow> BacktestResult \<Rightarrow> real dict \<Rightarrow> bool dict" where
  "check_backtest_quality criteria result enhanced_metrics =
     (let profit_factor = dict_get enhanced_metrics ''profit_factor'' 0;
          sharpe_ratio = dict_get enhanced_metrics ''sharpe_ratio'' 0
      in [(''min_profit_factor'', profit_factor \<ge> training_min_profit_factor criteria),
          (''min_sharpe'', sharpe_ratio \<ge> training_min_sharpe criteria),
          (''min_trades'', total_trades result \<ge> training_min_trades criteria)])"

text \<open>
  \<^verbatim>\<open>TrainingValidator._check_monte_carlo_suite_conditional\<close>. The source repeats one
  snippet per test: \<^verbatim>\<open>passing_metrics = sum(1 for p in p_values.values() if p <= max)\<close> and
  \<^verbatim>\<open>passing_metrics >= (len(p_values) / 2)\<close>, with true division. \<open>passing_metrics\<close> and
  \<open>majority_rule\<close> are that snippet; \<open>perm_pass\<close>, \<open>bootstrap_pass\<close> and \<open>randomized_pass\<close>
  are the locals of those names, \<open>suitable_tests\<close> the list comprehension.
\<close>

definition passing_metrics :: "TrainingValidationCriteria \<Rightarrow> real dict \<Rightarrow> nat" where
  "passing_metrics criteria pvs =
     length (filter (\<lambda>p. p \<le> monte_carlo_p_value_max criteria) (map snd pvs))"

definition majority_rule :: "TrainingValidationCriteria \<Rightarrow> real dict \<Rightarrow> bool" where
  "majority_rule criteria pvs = (real (passing_metrics criteria pvs) \<ge> real (length pvs) / 2)"

definition suitable_tests :: "TestSuitability dict \<Rightarrow> string list" where
  "suitable_tests test_suitability = map fst (filter (\<lambda>(name, suit). suitable suit) test_suitability)"

definition perm_pass :: "TrainingValidationCriteria \<Rightarrow> MonteCarloSuiteResult \<Rightarrow> string list \<Rightarrow> bool" where
  "perm_pass criteria mc_results st =
     (if ''permutation'' \<in> set st \<and> \<not> get_or (skipped (permutation mc_results)) False
      then (let perm_p_values = get_or (p_values (permutation mc_results)) []
            in if perm_p_values \<noteq> [] then majority_rule criteria perm_p_values else False)
      else False)"

definition bootstrap_pass :: "TrainingValidationCriteria \<Rightarrow> MonteCarloSuiteResult \<Rightarrow> string list \<Rightarrow> bool" where
  "bootstrap_pass criteria mc_results st =
     (if ''bootstrap'' \<in> set st \<and> \<not> get_or (skipped (bootstrap mc_results)) False
      then (let bootstrap_p_values = get_or (p_values (bootstrap mc_results)) []
            in if bootstrap_p_values \<noteq> [] then majority_rule criteria bootstrap_p_values else False)
      else False)"

definition randomized_pass :: "TrainingValidationCriteria \<Rightarrow> MonteCarloSuiteResult \<Rightarrow> bool" where
  "randomized_pass criteria mc_results =
     (let randomized_p_values = get_or (p_values (randomized_entry mc_results)) []
      in if randomized_p_values \<noteq> [] then majority_rule criteria randomized_p_values else False)"

definition check_monte_carlo_suite_conditional ::
  "TrainingValidationCriteria \<Rightarrow> MonteCarloSuiteResult \<Rightarrow> TestSuitability dict \<Rightarrow> bool dict" where
  "check_monte_carlo_suite_conditional criteria mc_results test_suitability =
     (let st = suitable_tests test_suitability;
          pp = perm_pass criteria mc_results st;
          bp = bootstrap_pass criteria mc_results st;
          rp = randomized_pass criteria mc_results;
          n_suitable = length st;
          individual =
            (if n_suitable = 3 then py_sum [pp, bp, rp] \<ge> 2
             else if n_suitable = 2 then
               py_sum ((if ''permutation'' \<in> set st then [pp] else [])
                     @ (if ''bootstrap'' \<in> set st then [bp] else [])
                     @ (if ''randomized_entry'' \<in> set st then [rp] else [])) \<ge> 1
             else if n_suitable = 1 then
               (if ''permutation'' \<in> set st then pp
                else if ''bootstrap'' \<in> set st then bp
                else rp)
             else False)
      in [(''mc_score'', dict_get (combined mc_results) ''score'' 0 \<ge> min_mc_score criteria),
          (''mc_percentile'', dict_get (combined mc_results) ''percentile'' 0 \<ge> min_mc_percentile criteria),
          (''mc_individual_tests'', individual)])"

text \<open>
  \<^verbatim>\<open>TrainingValidator._check_sensitivity\<close>. The argument is the dict \<^verbatim>\<open>_run_sensitivity\<close>
  returns (\<open>None\<close> for a missing or empty one, which the first guard sends back with no
  checks); its entry \<^verbatim>\<open>sensitivity_analysis\<close> maps a parameter name to an analysis whose
  \<^verbatim>\<open>coefficient_of_variation\<close> may be absent. An absent one reads as \<^verbatim>\<open>float('inf')\<close>, which
  is above every finite threshold.
\<close>

record SensitivityResults =
  sensitivity_analysis :: "real option dict option"

definition cv_within :: "TrainingValidationCriteria \<Rightarrow> real option \<Rightarrow> bool" where
  "cv_within criteria cv = (case cv of None \<Rightarrow> False | Some c \<Rightarrow> c \<le> sensitivity_max_cv criteria)"

definition check_sensitivity ::
  "TrainingValidationCriteria \<Rightarrow> SensitivityResults option \<Rightarrow> bool dict" where
  "check_sensitivity criteria sensitivity_results =
     (case sensitivity_results of
        None \<Rightarrow> []
      | Some r \<Rightarrow>
          (let sa = get_or (sensitivity_analysis r) [];
               checks = foldl (\<lambda>checks (param_name, cv).
                            dict_set checks (''sensitivity_'' @ param_name @ ''_cv'') (cv_within criteria cv))
                          [] sa
           in dict_set checks ''sensitivity_cv'' (list_all (\<lambda>(param_name, cv). cv_within criteria cv) sa)))"

text \<open>
  \<^verbatim>\<open>TrainingValidator.validate\<close>, from the point where its collaborators have answered.
  The back test, the enhanced metrics, the suitability assessment and the Monte Carlo suite
  are code outside this module, so their results are arguments; \<open>run_sens\<close> stands for
  \<^verbatim>\<open>_run_sensitivity\<close>, which only wraps the sensitivity analyzer. \<^verbatim>\<open>sensitivity_params\<close> is
  truthy when it is a non-empty dict. The failure-reason strings are formatted from the
  same checks and are not part of the model.
\<close>

record TrainingValidationResult =
  passed :: bool
  backtest_result :: BacktestResult
  monte_carlo_results :: MonteCarloSuiteResult
  sensitivity_results_of :: "SensitivityResults option"
  criteria_checks :: "bool dict"

definition validate ::
  "TrainingValidationCriteria \<Rightarrow> BacktestResult \<Rightarrow> real dict \<Rightarrow> TestSuitability dict \<Rightarrow>
   MonteCarloSuiteResult \<Rightarrow> bool \<Rightarrow> 'p dict option \<Rightarrow> ('p dict \<Rightarrow> SensitivityResults) \<Rightarrow>
   TrainingValidationResult" where
  "validate criteria result enhanced_metrics test_suitability mc_results
            run_sensitivity sensitivity_params run_sens =
     (let quality_checks = check_backtest_quality criteria result enhanced_metrics;
          mc_checks = check_monte_carlo_suite_conditional criteria mc_results test_suitability;
          requested = (run_sensitivity \<and> get_or sensitivity_params [] \<noteq> []);
          sensitivity_results =
            (if requested then Some (run_sens (get_or sensitivity_params [])) else None);
          sensitivity_checks =
            (if requested then check_sensitivity criteria sensitivity_results else []);
          all_checks = dict_merge (dict_merge quality_checks mc_checks) sensitivity_checks;
          mc_individual_tests_pass = dict_get all_checks ''mc_individual_tests'' False;
          mc_score_pass = dict_get all_checks ''mc_score'' False;
          mc_percentile_pass = dict_get all_checks ''mc_percentile'' False;
          quality_pass = list_all snd quality_checks
      in \<lparr>passed = quality_pass \<and> (mc_score_pass \<and> mc_percentile_pass) \<and> mc_individual_tests_pass,
          backtest_result = result,
          monte_carlo_results = mc_results,
          sensitivity_results_of = sensitivity_results,
          criteria_checks = all_checks\<rparr>)"

text \<open>
  The pass flag of a test by its name, for stating the rule on the suitable tests: the
  three flags above, under the names the suitability dict uses.
\<close>

definition test_passed ::
  "TrainingValidationCriteria \<Rightarrow> MonteCarloSuiteResult \<Rightarrow> string list \<Rightarrow> string \<Rightarrow> bool" where
  "test_passed criteria mc_results st name =
     (if name = ''permutation'' then perm_pass criteria mc_results st
      else if name = ''bootstrap'' then bootstrap_pass criteria mc_results st
      else randomized_pass criteria mc_results)"

section \<open>Live trading engine: \<^verbatim>\<open>engine/live_trading_engine.py\<close>\<close>

text \<open>
  The engine's mutable attributes are a record that every method takes and returns. The
  execution adapter and the engine's market spec (\<^verbatim>\<open>engine.market\<close>) are code outside this
  module: what the adapter answers at each call site of one \<^verbatim>\<open>process_signal\<close> run is a field
  of \<open>AdapterResponses\<close> (a value, or the exception it raises), and the margin computation
  is a function argument. A method returns \<open>Inl\<close> when an exception leaves it. Every
  \<open>py_error\<close> is an instance of \<^verbatim>\<open>Exception\<close>, which is what the handlers catch; interpreter
  exits such as \<^verbatim>\<open>KeyboardInterrupt\<close> and the logger are not modelled.
\<close>

record Balance =
  total_balance :: real
  available_balance :: real

record AdapterPosition =
  pos_symbol :: string
  pos_size :: real
  pos_side :: string
  pos_unrealized_pnl :: real

record Order =
  order_id :: string

record Signal =
  sig_action :: "string option"
  sig_quantity :: "real option"
  sig_stop_price :: "real option"
  sig_target_price :: "real option"

record AdapterResponses =
  balance_for_safety :: "py_error + Balance"
  positions_response :: "py_error + AdapterPosition list"
  balance_for_entry :: "py_error + Balance"
  market_order_response :: "py_error + Order"
  stop_order_response :: "py_error + Order"

record LiveTradingEngine =
  eng_symbol :: string
  max_daily_loss_pct :: real
  max_drawdown_pct :: real
  active_positions :: "AdapterPosition dict"
  active_stop_orders :: "string dict"
  daily_start_balance :: real
  peak_equity :: real
  trades_executed :: int
  trades_skipped :: int

text \<open>\<^verbatim>\<open>update_positions\<close>: the dict comprehension keeps positions larger than 0.0001.\<close>

definition update_positions ::
  "LiveTradingEngine \<Rightarrow> AdapterResponses \<Rightarrow> py_error + LiveTradingEngine" where
  "update_positions self adapter =
     (case positions_response adapter of
        Inl e \<Rightarrow> Inl e
      | Inr positions \<Rightarrow>
          Inr (self\<lparr>active_positions :=
                 foldl (\<lambda>d pos. dict_set d (pos_symbol pos) pos) []
                   (filter (\<lambda>pos. \<bar>pos_size pos\<bar> > 1 / 10000) positions)\<rparr>))"

text \<open>\<^verbatim>\<open>check_safety_limits\<close>: returns \<^verbatim>\<open>should_stop\<close> and the engine, whose peak it may raise.\<close>

definition check_safety_limits ::
  "LiveTradingEngine \<Rightarrow> AdapterResponses \<Rightarrow> py_error + (bool \<times> LiveTradingEngine)" where
  "check_safety_limits self adapter =
     (case balance_for_safety adapter of
        Inl e \<Rightarrow> Inl e
      | Inr balance \<Rightarrow>
          (let current_equity = total_balance balance
           in case py_div (daily_start_balance self - current_equity) (daily_start_balance self) of
                Inl e \<Rightarrow> Inl e
              | Inr ratio \<Rightarrow>
                  if ratio * 100 \<ge> max_daily_loss_pct self then Inr (True, self)
                  else
                    (let self1 = (if current_equity > peak_equity self
                                  then self\<lparr>peak_equity := current_equity\<rparr> else self)
                     in case py_div (peak_equity self1 - current_equity) (peak_equity self1) of
                          Inl e \<Rightarrow> Inl e
                        | Inr dd \<Rightarrow>
                            if dd * 100 \<ge> max_drawdown_pct self1 then Inr (True, self1)
                            else Inr (False, self1))))"

text \<open>\<^verbatim>\<open>_place_stop_loss\<close>: its own handler catches a failed stop order.\<close>

definition place_stop_loss :: "LiveTradingEngine \<Rightarrow> AdapterResponses \<Rightarrow> LiveTradingEngine" where
  "place_stop_loss self adapter =
     (case stop_order_response adapter of
        Inr stop_order \<Rightarrow>
          self\<lparr>active_stop_orders :=
                 dict_set (active_stop_orders self) (eng_symbol self) (order_id stop_order)\<rparr>
      | Inl e \<Rightarrow> self)"

text \<open>
  \<^verbatim>\<open>_process_entry_signal\<close>. The balance query and the margin computation stand before the
  \<^verbatim>\<open>try\<close>, so their exceptions leave the method; the order placement stands inside it.
\<close>

definition process_entry_signal ::
  "(real \<Rightarrow> real \<Rightarrow> py_error + real) \<Rightarrow> LiveTradingEngine \<Rightarrow> AdapterResponses \<Rightarrow> Signal \<Rightarrow> real \<Rightarrow>
   py_error + LiveTradingEngine" where
  "process_entry_signal spec_margin self adapter signal current_price =
     (case sig_quantity signal of
        None \<Rightarrow> Inr self
      | Some quantity \<Rightarrow>
          if quantity = 0 \<or> quantity \<le> 0 then Inr self
          else if map_of (active_positions self) (eng_symbol self) \<noteq> None
          then Inr (self\<lparr>trades_skipped := trades_skipped self + 1\<rparr>)
          else
            (case balance_for_entry adapter of
               Inl e \<Rightarrow> Inl e
             | Inr balance \<Rightarrow>
                 if available_balance balance \<le> 0
                 then Inr (self\<lparr>trades_skipped := trades_skipped self + 1\<rparr>)
                 else
                   (case spec_margin current_price quantity of
                      Inl e \<Rightarrow> Inl e
                    | Inr margin_required \<Rightarrow>
                        if margin_required > available_balance balance
                        then Inr (self\<lparr>trades_skipped := trades_skipped self + 1\<rparr>)
                        else
                          (case market_order_response adapter of
                             Inr order \<Rightarrow>
                               (let self1 = self\<lparr>trades_executed := trades_executed self + 1\<rparr>
                                in if py_truthy (sig_stop_price signal)
                                   then Inr (place_stop_loss self1 adapter)
                                   else Inr self1)
                           | Inl e \<Rightarrow> Inr (self\<lparr>trades_skipped := trades_skipped self + 1\<rparr>)))))"

text \<open>
  \<^verbatim>\<open>_close_all_positions\<close> and \<^verbatim>\<open>_update_stop_loss\<close>. Every adapter call of the first and
  the cancellation of the second stand in handlers of their own, so their answers change
  neither the engine nor the control flow.
\<close>

definition close_all_positions :: "LiveTradingEngine \<Rightarrow> LiveTradingEngine" where
  "close_all_positions self = self\<lparr>active_positions := [], active_stop_orders := []\<rparr>"

definition update_stop_loss :: "LiveTradingEngine \<Rightarrow> AdapterResponses \<Rightarrow> Signal \<Rightarrow> LiveTradingEngine" where
  "update_stop_loss self adapter signal =
     (if map_of (active_positions self) (eng_symbol self) = None then self
      else if \<not> py_truthy (sig_stop_price signal) then self
      else
        (case stop_order_response adapter of
           Inr stop_order \<Rightarrow>
             self\<lparr>active_stop_orders :=
                    dict_set (active_stop_orders self) (eng_symbol self) (order_id stop_order)\<rparr>
         | Inl e \<Rightarrow> self))"

text \<open>\<^verbatim>\<open>process_signal\<close>: no handler of its own around the calls it makes.\<close>

definition process_signal ::
  "(real \<Rightarrow> real \<Rightarrow> py_error + real) \<Rightarrow> LiveTradingEngine \<Rightarrow> AdapterResponses \<Rightarrow> Signal \<Rightarrow> real \<Rightarrow>
   py_error + LiveTradingEngine" where
  "process_signal spec_margin self adapter signal current_price =
     (case sig_action signal of
        None \<Rightarrow> Inr self
      | Some action \<Rightarrow>
          if action = [] then Inr self
          else
            (case check_safety_limits self adapter of
               Inl e \<Rightarrow> Inl e
             | Inr (should_stop, self1) \<Rightarrow>
                 if should_stop then Inr self1
                 else
                   (case update_positions self1 adapter of
                      Inl e \<Rightarrow> Inl e
                    | Inr self2 \<Rightarrow>
                        if action = ''CLOSE'' then Inr (close_all_positions self2)
                        else if action \<in> set [''BUY'', ''SELL'']
                        then process_entry_signal spec_margin self2 adapter signal current_price
                        else if action = ''UPDATE_STOP''
                        then Inr (update_stop_loss self2 adapter signal)
                        else Inr self2)))"

section \<open>Concrete inputs\<close>

text \<open>
  Market specs and a broker at which the theorems below are evaluated: a CME-style futures
  contract with an overnight margin and no day-trading margin, and a leveraged crypto
  market with a maintenance-margin rate.
\<close>

definition cme_overnight_only :: MarketSpec where
  "cme_overnight_only =
     \<lparr>symbol = ''ES'', exchange = ''cme'', asset_class = ''futures'', market_type = ''futures'',
      leverage = 10, contract_size = None, pip_value = None, min_trade_size = 1 / 100,
      price_precision = 5, quantity_precision = 2, commission_rate = 1 / 2500,
      commission_per_contract = None, slippage_ticks = 0,
      initial_margin_per_contract = Some 1000, intraday_margin_per_contract = None,
      maintenance_margin_rate = None, margin_mode = ''cross''\<rparr>"

definition crypto_with_rate :: MarketSpec where
  "crypto_with_rate =
     cme_overnight_only\<lparr>symbol := ''BTCUSDT'', exchange := ''binance'', asset_class := ''crypto'',
       market_type := ''spot'', initial_margin_per_contract := None,
       maintenance_margin_rate := Some (1 / 200)\<rparr>"

definition crypto_broker :: Broker where
  "crypto_broker = \<lparr>market_spec = crypto_with_rate, margin_call_level = 1\<rparr>"

text \<open>
  Thresholds, Monte Carlo results and suitability dicts: a permutation test with two
  metrics of which one passes, a bootstrap test with two of three passing, a
  randomized-entry test with one of three passing; all three tests suitable (the legacy
  dict of \<^verbatim>\<open>_check_monte_carlo_suite\<close>), two suitable, one suitable.
\<close>

definition criteria_example :: TrainingValidationCriteria where
  "criteria_example =
     \<lparr>training_min_profit_factor = 3 / 2, training_min_sharpe = 1, training_min_trades = 30,
      min_mc_score = 60, min_mc_percentile = 70, monte_carlo_p_value_max = 1 / 20,
      sensitivity_max_cv = 3 / 10\<rparr>"

definition tie_p_values :: "real dict" where
  "tie_p_values = [(''final_pnl'', 1 / 100), (''sharpe_ratio'', 9 / 10)]"

definition three_p_values :: "real dict" where
  "three_p_values = [(''final_pnl'', 1 / 100), (''sharpe_ratio'', 9 / 10), (''profit_factor'', 1 / 50)]"

definition failing_p_values :: "real dict" where
  "failing_p_values = [(''final_pnl'', 1 / 2), (''sharpe_ratio'', 9 / 10), (''profit_factor'', 1 / 50)]"

definition mc_tie :: MonteCarloSuiteResult where
  "mc_tie =
     \<lparr>permutation = \<lparr>skipped = Some False, p_values = Some tie_p_values\<rparr>,
      bootstrap = \<lparr>skipped = None, p_values = Some three_p_values\<rparr>,
      randomized_entry = \<lparr>skipped = None, p_values = Some failing_p_values\<rparr>,
      combined = [(''score'', 80), (''percentile'', 90)]\<rparr>"

definition suit :: "bool \<Rightarrow> TestSuitability" where
  "suit b = \<lparr>suitable = b, reason = ''Legacy mode'', alternatives = [], priority = 1 / 2\<rparr>"

definition all_suitable :: "TestSuitability dict" where
  "all_suitable = [(''permutation'', suit True), (''bootstrap'', suit True), (''randomized_entry'', suit True)]"

definition two_suitable :: "TestSuitability dict" where
  "two_suitable = [(''permutation'', suit False), (''bootstrap'', suit True), (''randomized_entry'', suit True)]"

definition one_suitable :: "TestSuitability dict" where
  "one_suitable = [(''randomized_entry'', suit True), (''permutation'', suit False), (''bootstrap'', suit False)]"

definition backtest_example :: BacktestResult where
  "backtest_example = \<lparr>total_trades = 42\<rparr>"

definition metrics_example :: "real dict" where
  "metrics_example = [(''profit_factor'', 2), (''sharpe_ratio'', 3 / 2)]"

text \<open>
  A sensitivity run over one parameter whose coefficient of variation, 2, is above the
  threshold.
\<close>

definition sensitivity_fragile :: "nat list dict \<Rightarrow> SensitivityResults" where
  "sensitivity_fragile param_grid = \<lparr>sensitivity_analysis = Some [(''fast_period'', Some 2)]\<rparr>"

text \<open>
  An engine with no open position, an adapter that answers every query and rejects the
  market order, and a buy signal.
\<close>

definition engine_example :: LiveTradingEngine where
  "engine_example =
     \<lparr>eng_symbol = ''BTCUSDT'', max_daily_loss_pct = 5, max_drawdown_pct = 15,
      active_positions = [], active_stop_orders = [], daily_start_balance = 10000,
      peak_equity = 10000, trades_executed = 3, trades_skipped = 1\<rparr>"

definition adapter_rejecting :: AdapterResponses where
  "adapter_rejecting =
     \<lparr>balance_for_safety = Inr \<lparr>total_balance = 10000, available_balance = 5000\<rparr>,
      positions_response = Inr [],
      balance_for_entry = Inr \<lparr>total_balance = 10000, available_balance = 5000\<rparr>,
      market_order_response = Inl (AdapterError ''order rejected''),
      stop_order_response = Inr \<lparr>order_id = ''stop-1''\<rparr>\<rparr>"

definition signal_buy :: Signal where
  "signal_buy =
     \<lparr>sig_action = Some ''BUY'', sig_quantity = Some 2, sig_stop_price = Some 95,
      sig_target_price = None\<rparr>"

definition margin_example :: "real \<Rightarrow> real \<Rightarrow> py_error + real" where
  "margin_example entry_price quantity = calculate_margin crypto_with_rate entry_price quantity True"

section \<open>Properties of the market economics\<close>

text \<open>
  C1. Unrealized P&L is \<open>(current - entry) * quantity\<close> for direction \<open>long\<close> and
  \<open>(entry - current) * quantity\<close> for any other direction; two market specs that differ
  only in leverage give the same P&L; realized P&L is the same function at the exit price.
\<close>

theorem pnl_formula_leverage_invariant:
  "calculate_unrealized_pnl ms entry_price current_price quantity direction =
     (if direction = ''long'' then (current_price - entry_price) * quantity
      else (entry_price - current_price) * quantity)
   \<and> calculate_unrealized_pnl (ms\<lparr>leverage := l1\<rparr>) entry_price current_price quantity direction =
     calculate_unrealized_pnl (ms\<lparr>leverage := l2\<rparr>) entry_price current_price quantity direction
   \<and> calculate_unrealized_pnl (ms\<lparr>leverage := 1\<rparr>) entry_price current_price quantity direction =
     calculate_unrealized_pnl (ms\<lparr>leverage := 50\<rparr>) entry_price current_price quantity direction
   \<and> calculate_realized_pnl ms entry_price exit_price quantity direction =
     calculate_unrealized_pnl ms entry_price exit_price quantity direction"
  by (simp add: calculate_unrealized_pnl_def calculate_realized_pnl_def)

text \<open>
  C5. A margin call is never raised when no margin is used; with margin in use it is
  raised whenever equity is at most zero, whatever the level; otherwise exactly when
  \<open>equity / margin_used\<close> is below the level. At level 1, equity 0 on margin 100 is a
  margin call and equity 150 on margin 100 is not.
\<close>

theorem check_margin_call_cases:
  "check_margin_call b equity margin_used =
     (if margin_used \<le> 0 then False
      else if equity \<le> 0 then True
      else equity / margin_used < margin_call_level b)
   \<and> check_margin_call (b\<lparr>margin_call_level := lvl\<rparr>) 0 100
   \<and> check_margin_call (b\<lparr>margin_call_level := 1\<rparr>) 0 100
   \<and> \<not> check_margin_call (b\<lparr>margin_call_level := 1\<rparr>) 150 100"
  by (simp add: check_margin_call_def)

text \<open>
  C6, as stated, fails. A futures market with an initial per-contract margin and no
  intraday margin is charged the initial margin on an intraday position: the value is
  neither a multiple of a (missing) intraday margin nor the leverage-based margin.
\<close>

theorem calculate_margin_counterexample:
  "asset_class cme_overnight_only = ''futures''
   \<and> initial_margin_per_contract cme_overnight_only = Some 1000
   \<and> intraday_margin_per_contract cme_overnight_only = None
   \<and> calculate_margin cme_overnight_only 100 2 True = Inr 2000
   \<and> calculate_margin cme_overnight_only 100 2 True \<noteq> Inr (100 * \<bar>2\<bar> / leverage cme_overnight_only)"
  by (simp add: calculate_margin_def cme_overnight_only_def)

text \<open>
  C6, amended. For a futures market with an initial per-contract margin the result is
  \<open>|quantity| * intraday margin\<close> when the position is intraday and an intraday margin is
  configured, and \<open>|quantity| * initial margin\<close> when it is not intraday or no intraday
  margin is configured. In every other case (futures with no initial per-contract margin,
  every other asset class) it is \<open>entry_price * |quantity| / leverage\<close>, for a leverage
  other than zero.
\<close>

theorem calculate_margin_cases:
  "(asset_class ms = ''futures'' \<and> initial_margin_per_contract ms = Some im
      \<and> intraday_margin_per_contract ms = Some dm \<and> is_intraday
      \<longrightarrow> calculate_margin ms entry_price quantity is_intraday = Inr (\<bar>quantity\<bar> * dm))
   \<and> (asset_class ms = ''futures'' \<and> initial_margin_per_contract ms = Some im
      \<and> (\<not> is_intraday \<or> intraday_margin_per_contract ms = None)
      \<longrightarrow> calculate_margin ms entry_price quantity is_intraday = Inr (\<bar>quantity\<bar> * im))
   \<and> ((asset_class ms \<noteq> ''futures'' \<or> initial_margin_per_contract ms = None) \<and> leverage ms \<noteq> 0
      \<longrightarrow> calculate_margin ms entry_price quantity is_intraday
          = Inr (entry_price * \<bar>quantity\<bar> / leverage ms))"
  by (auto simp add: calculate_margin_def py_div_def)

theorem calculate_margin_cases_witness:
  "calculate_margin (cme_overnight_only\<lparr>intraday_margin_per_contract := Some 500\<rparr>) 100 (-2) True = Inr 1000
   \<and> calculate_margin (cme_overnight_only\<lparr>intraday_margin_per_contract := Some 500\<rparr>) 100 (-2) False = Inr 2000
   \<and> calculate_margin cme_overnight_only 100 (-2) True = Inr 2000
   \<and> calculate_margin (cme_overnight_only\<lparr>initial_margin_per_contract := None\<rparr>) 100 (-2) True = Inr 20
   \<and> calculate_margin crypto_with_rate 100 (-2) False = Inr 20"
  using calculate_margin_cases [of "cme_overnight_only\<lparr>intraday_margin_per_contract := Some 500\<rparr>" 1000 500 True 100 "-2"]
    calculate_margin_cases [of "cme_overnight_only\<lparr>intraday_margin_per_contract := Some 500\<rparr>" 1000 500 False 100 "-2"]
    calculate_margin_cases [of cme_overnight_only 1000 0 True 100 "-2"]
    calculate_margin_cases [of "cme_overnight_only\<lparr>initial_margin_per_contract := None\<rparr>" 0 0 True 100 "-2"]
    calculate_margin_cases [of crypto_with_rate 0 0 False 100 "-2"]
  by (simp add: cme_overnight_only_def crypto_with_rate_def)

text \<open>
  C7, as stated, fails. Outside the futures asset class a configured maintenance-margin
  rate is not read: the result is the initial margin.
\<close>

theorem maintenance_margin_counterexample:
  "maintenance_margin_rate crypto_with_rate = Some (1 / 200)
   \<and> calculate_maintenance_margin crypto_with_rate 100 2 None = Inr 20
   \<and> calculate_maintenance_margin crypto_with_rate 100 2 None
       \<noteq> Inr (py_or None 100 * \<bar>2\<bar> * (1 / 200))"
  by (simp add: calculate_maintenance_margin_def calculate_margin_def py_div_def py_or_def crypto_with_rate_def cme_overnight_only_def)

text \<open>
  C7, amended. For a futures market with a maintenance-margin rate the result is
  \<open>notional * rate\<close> with \<open>notional = (current_price or entry_price) * |quantity|\<close>; for a
  futures market with no rate and an initial per-contract margin it is
  \<open>|quantity| * initial margin\<close>; in every other case (any other asset class, with or without
  a rate, and futures with neither) it is \<^verbatim>\<open>calculate_margin(entry_price, quantity)\<close>.
\<close>

theorem maintenance_margin_cases:
  "(asset_class ms = ''futures'' \<and> maintenance_margin_rate ms = Some r
      \<longrightarrow> calculate_maintenance_margin ms entry_price quantity current_price
          = Inr (py_or current_price entry_price * \<bar>quantity\<bar> * r))
   \<and> (asset_class ms = ''futures'' \<and> maintenance_margin_rate ms = None
      \<and> initial_margin_per_contract ms = Some im
      \<longrightarrow> calculate_maintenance_margin ms entry_price quantity current_price = Inr (\<bar>quantity\<bar> * im))
   \<and> (asset_class ms \<noteq> ''futures''
      \<or> (maintenance_margin_rate ms = None \<and> initial_margin_per_contract ms = None)
      \<longrightarrow> calculate_maintenance_margin ms entry_price quantity current_price
          = calculate_margin ms entry_price quantity True)"
  by (auto simp add: calculate_maintenance_margin_def Let_def)

theorem maintenance_margin_cases_witness:
  "calculate_maintenance_margin (cme_overnight_only\<lparr>maintenance_margin_rate := Some (1 / 200)\<rparr>) 100 (-2) (Some 110) = Inr (11 / 10)
   \<and> calculate_maintenance_margin (cme_overnight_only\<lparr>maintenance_margin_rate := Some (1 / 200)\<rparr>) 100 (-2) (Some 0) = Inr 1
   \<and> calculate_maintenance_margin (cme_overnight_only\<lparr>intraday_margin_per_contract := Some 500\<rparr>) 100 (-2) None = Inr 2000
   \<and> calculate_maintenance_margin crypto_with_rate 100 (-2) None = Inr 20
   \<and> calculate_maintenance_margin (cme_overnight_only\<lparr>initial_margin_per_contract := None\<rparr>) 100 (-2) None = Inr 20"
  using maintenance_margin_cases [of "cme_overnight_only\<lparr>maintenance_margin_rate := Some (1 / 200)\<rparr>" "1 / 200" 100 "-2" "Some 110" 0]
    maintenance_margin_cases [of "cme_overnight_only\<lparr>maintenance_margin_rate := Some (1 / 200)\<rparr>" "1 / 200" 100 "-2" "Some 0" 0]
    maintenance_margin_cases [of "cme_overnight_only\<lparr>intraday_margin_per_contract := Some 500\<rparr>" 0 100 "-2" None 1000]
    maintenance_margin_cases [of crypto_with_rate 0 100 "-2" None 0]
    maintenance_margin_cases [of "cme_overnight_only\<lparr>initial_margin_per_contract := None\<rparr>" 0 100 "-2" None 0]
  by (simp add: cme_overnight_only_def crypto_with_rate_def py_or_def calculate_margin_def py_div_def)

text \<open>
  The algebra of the round trip; a quotient grows when its divisor shrinks; the margin does
  not read the commission rate; and what \<^verbatim>\<open>adjust_quantity_for_cash\<close> returns, in terms of
  the rate it works with, \<^verbatim>\<open>commission_rate or self.market_spec.commission_rate\<close>.
\<close>

lemma round_trip_algebra:
  fixes p l r c :: real
  assumes "0 < p" "0 < l" "0 \<le> r"
  shows "c / (p * (1 / l + r)) * p / l + p * (c / (p * (1 / l + r))) * r = c"
proof -
  have pos: "0 < 1 / l + r" using assms by (simp add: add_pos_nonneg)
  have split: "x * p / l + p * x * r = x * (p * (1 / l + r))" for x
    by (simp add: distrib_left mult.commute mult.left_commute)
  have "c / (p * (1 / l + r)) * (p * (1 / l + r)) = c"
    using assms(1) pos by simp
  then show ?thesis by (simp only: split)
qed

lemma div_less_smaller_divisor:
  fixes c A B :: real
  assumes "0 < c" "0 < B" "B < A"
  shows "c / A < c / B"
  using assms by (simp add: frac_less2)

lemma zero_commission_margin:
  "calculate_margin_required (zero_commission b) entry_price quantity
   = calculate_margin_required b entry_price quantity"
  by (simp add: calculate_margin_required_def calculate_margin_def zero_commission_def)

lemma adjust_with_rate:
  assumes "0 < entry_price" and "0 < leverage (market_spec b)"
    and "0 \<le> py_or arg (commission_rate (market_spec b))"
  shows "adjust_quantity_for_cash b entry_price desired_quantity available_cash arg
         = Inr (min desired_quantity
                  (available_cash / (entry_price * (1 / leverage (market_spec b)
                      + py_or arg (commission_rate (market_spec b))))))"
proof -
  let ?l = "leverage (market_spec b)"
  let ?r = "py_or arg (commission_rate (market_spec b))"
  have "0 < 1 / ?l + ?r" using assms by (simp add: add_pos_nonneg)
  then have nz: "entry_price * (1 / ?l + ?r) \<noteq> 0" using assms(1) by simp
  have lnz: "?l \<noteq> 0" using assms(2) by simp
  show ?thesis
    unfolding adjust_quantity_for_cash_def max_affordable_qty_def py_div_def Let_def
    using lnz nz by simp
qed

text \<open>
  In terms of the rate the method works with, the bound is
  \<open>cash / (price * (1 / leverage + rate))\<close>, margin plus commission at the bound is the
  available cash, and a desired quantity of at least the bound is cut to the bound. That
  rate is the argument when the argument is given and not zero.
\<close>

lemma max_affordable_round_trip:
  assumes "0 < entry_price" and "0 < leverage (market_spec b)"
    and "0 \<le> py_or commission_rate_arg (commission_rate (market_spec b))"
  shows "(let rate = py_or commission_rate_arg (commission_rate (market_spec b));
              qty = available_cash / (entry_price * (1 / leverage (market_spec b) + rate))
          in max_affordable_qty b entry_price available_cash commission_rate_arg = Inr qty
             \<and> qty * entry_price / leverage (market_spec b) + entry_price * qty * rate = available_cash
             \<and> (qty \<le> desired_quantity \<longrightarrow>
                  adjust_quantity_for_cash b entry_price desired_quantity available_cash
                    commission_rate_arg = Inr qty))"
proof -
  let ?l = "leverage (market_spec b)"
  let ?r = "py_or commission_rate_arg (commission_rate (market_spec b))"
  let ?q = "available_cash / (entry_price * (1 / ?l + ?r))"
  have pos: "0 < 1 / ?l + ?r" using assms by (simp add: add_pos_nonneg)
  then have nz: "entry_price * (1 / ?l + ?r) \<noteq> 0" using assms(1) by simp
  have lnz: "?l \<noteq> 0" using assms(2) by simp
  have m: "max_affordable_qty b entry_price available_cash commission_rate_arg = Inr ?q"
    unfolding max_affordable_qty_def py_div_def Let_def using lnz nz by simp
  have rt: "?q * entry_price / ?l + entry_price * ?q * ?r = available_cash"
    by (rule round_trip_algebra [OF assms(1) assms(2) assms(3)])
  have adj: "?q \<le> desired_quantity \<Longrightarrow>
     adjust_quantity_for_cash b entry_price desired_quantity available_cash commission_rate_arg = Inr ?q"
    unfolding adjust_quantity_for_cash_def m by (simp add: min_def)
  from m rt adj show ?thesis unfolding Let_def by (intro conjI impI)
qed

text \<open>
  C8 says that for every non-negative commission rate the bound is
  \<open>cash / (price * (1 / leverage + commission_rate))\<close> and that margin plus commission at
  the bound is the available cash. At an explicit commission rate of zero the method does
  not do so. Its docstring has the market spec's rate used when the argument is
  \<^verbatim>\<open>None\<close>, and an explicit 0.001 is honoured (bound 10000/101); but an explicit zero is
  falsy, the market spec's 0.0004 is used, and the result is 25000/251 as with the rate left
  out, where the bound at rate zero is 100. Margin plus a zero commission at 25000/251 is
  not the available cash of 1000.
\<close>

theorem explicit_zero_rate_bound_diverges:
  "commission_rate (market_spec crypto_broker) = 1 / 2500
   \<and> leverage (market_spec crypto_broker) = 10
   \<and> max_affordable_qty crypto_broker 100 1000 (Some 0) = Inr (25000 / 251)
   \<and> adjust_quantity_for_cash crypto_broker 100 500 1000 (Some 0) = Inr (25000 / 251)
   \<and> adjust_quantity_for_cash crypto_broker 100 500 1000 None = Inr (25000 / 251)
   \<and> adjust_quantity_for_cash crypto_broker 100 500 1000 (Some (1 / 1000)) = Inr (10000 / 101)
   \<and> 1000 / (100 * (1 / leverage (market_spec crypto_broker) + 0)) = (100 :: real)
   \<and> (25000 / 251 :: real) \<noteq> 100
   \<and> (25000 / 251) * 100 / leverage (market_spec crypto_broker) + 100 * (25000 / 251) * 0
       \<noteq> (1000 :: real)"
  by (simp add: adjust_quantity_for_cash_def max_affordable_qty_def py_div_def py_or_def
        crypto_broker_def crypto_with_rate_def cme_overnight_only_def)

text \<open>
  C10, as stated, fails. C10 says that with a positive rate in the market spec the result
  at an explicit zero is not the zero-commission result. For a desired quantity below both
  bounds \<^verbatim>\<open>adjust_quantity_for_cash\<close> returns the desired quantity, at an explicit zero as
  at zero commission.
\<close>

theorem explicit_zero_commission_counterexample:
  "0 < commission_rate (market_spec crypto_broker)
   \<and> adjust_quantity_for_cash crypto_broker 100 1 1000 (Some 0) = Inr 1
   \<and> adjust_quantity_for_cash (zero_commission crypto_broker) 100 1 1000 None = Inr 1
   \<and> min 1 (1000 / (100 * (1 / leverage (market_spec crypto_broker) + 0))) = (1 :: real)"
  by (simp add: adjust_quantity_for_cash_def max_affordable_qty_def py_div_def py_or_def
        zero_commission_def crypto_broker_def crypto_with_rate_def cme_overnight_only_def)

text \<open>
  C10, amended. An explicit commission rate of zero is replaced by the market spec's rate:
  both methods answer as they do with the rate left out. With a positive rate in the
  market spec, \<^verbatim>\<open>can_afford_position\<close> requires margin plus the commission at the market
  spec's rate, which differs from the zero-commission requirement (the margin) whenever
  \<open>entry_price * quantity\<close> is not zero. With a positive price, leverage and cash as well,
  \<^verbatim>\<open>adjust_quantity_for_cash\<close> returns the smaller of the desired quantity and the bound at
  the market spec's rate; that differs from the zero-commission result when the desired
  quantity is above this bound, and equals it when it is not.
\<close>

theorem explicit_zero_commission_falls_back:
  "can_afford_position b entry_price quantity available_cash (Some 0)
     = can_afford_position b entry_price quantity available_cash None
   \<and> adjust_quantity_for_cash b entry_price desired_quantity available_cash (Some 0)
     = adjust_quantity_for_cash b entry_price desired_quantity available_cash None
   \<and> (0 < commission_rate (market_spec b) \<and> entry_price * quantity \<noteq> 0
        \<and> calculate_margin_required b entry_price quantity = Inr margin
      \<longrightarrow> can_afford_position b entry_price quantity available_cash (Some 0)
            = Inr (margin + entry_price * quantity * commission_rate (market_spec b) \<le> available_cash,
                   margin + entry_price * quantity * commission_rate (market_spec b))
          \<and> can_afford_position (zero_commission b) entry_price quantity available_cash None
            = Inr (margin \<le> available_cash, margin)
          \<and> margin + entry_price * quantity * commission_rate (market_spec b) \<noteq> margin)
   \<and> (0 < commission_rate (market_spec b) \<and> 0 < leverage (market_spec b) \<and> 0 < entry_price
        \<and> 0 < available_cash
      \<longrightarrow> (let bound = available_cash
                   / (entry_price * (1 / leverage (market_spec b) + commission_rate (market_spec b)));
               zero_bound = available_cash / (entry_price * (1 / leverage (market_spec b) + 0))
           in adjust_quantity_for_cash b entry_price desired_quantity available_cash (Some 0)
                = Inr (min desired_quantity bound)
              \<and> adjust_quantity_for_cash (zero_commission b) entry_price desired_quantity
                  available_cash None
                = Inr (min desired_quantity zero_bound)
              \<and> (bound < desired_quantity \<longrightarrow>
                   adjust_quantity_for_cash b entry_price desired_quantity available_cash (Some 0)
                   \<noteq> adjust_quantity_for_cash (zero_commission b) entry_price desired_quantity
                       available_cash None)
              \<and> (desired_quantity \<le> bound \<longrightarrow>
                   adjust_quantity_for_cash b entry_price desired_quantity available_cash (Some 0)
                   = adjust_quantity_for_cash (zero_commission b) entry_price desired_quantity
                       available_cash None)))"
proof (intro conjI)
  have fall: "py_or (Some 0) d = py_or None d" for d
    by (simp add: py_or_def)
  show "can_afford_position b entry_price quantity available_cash (Some 0)
     = can_afford_position b entry_price quantity available_cash None"
    by (simp add: can_afford_position_def fall cong: sum.case_cong)
  show "adjust_quantity_for_cash b entry_price desired_quantity available_cash (Some 0)
     = adjust_quantity_for_cash b entry_price desired_quantity available_cash None"
    by (simp add: adjust_quantity_for_cash_def max_affordable_qty_def fall cong: sum.case_cong)
  show "0 < commission_rate (market_spec b) \<and> entry_price * quantity \<noteq> 0
        \<and> calculate_margin_required b entry_price quantity = Inr margin
      \<longrightarrow> can_afford_position b entry_price quantity available_cash (Some 0)
            = Inr (margin + entry_price * quantity * commission_rate (market_spec b) \<le> available_cash,
                   margin + entry_price * quantity * commission_rate (market_spec b))
          \<and> can_afford_position (zero_commission b) entry_price quantity available_cash None
            = Inr (margin \<le> available_cash, margin)
          \<and> margin + entry_price * quantity * commission_rate (market_spec b) \<noteq> margin"
  proof
    assume h: "0 < commission_rate (market_spec b) \<and> entry_price * quantity \<noteq> 0
        \<and> calculate_margin_required b entry_price quantity = Inr margin"
    then have m0: "calculate_margin_required (zero_commission b) entry_price quantity = Inr margin"
      by (simp add: zero_commission_margin)
    have z: "commission_rate (market_spec (zero_commission b)) = 0"
      by (simp add: zero_commission_def)
    have one: "can_afford_position b entry_price quantity available_cash (Some 0)
            = Inr (margin + entry_price * quantity * commission_rate (market_spec b) \<le> available_cash,
                   margin + entry_price * quantity * commission_rate (market_spec b))"
      using h by (simp add: can_afford_position_def py_or_def Let_def)
    have two: "can_afford_position (zero_commission b) entry_price quantity available_cash None
            = Inr (margin \<le> available_cash, margin)"
      by (simp add: can_afford_position_def m0 z py_or_def Let_def)
    have three: "margin + entry_price * quantity * commission_rate (market_spec b) \<noteq> margin"
      using h by simp
    from one two three
    show "can_afford_position b entry_price quantity available_cash (Some 0)
            = Inr (margin + entry_price * quantity * commission_rate (market_spec b) \<le> available_cash,
                   margin + entry_price * quantity * commission_rate (market_spec b))
          \<and> can_afford_position (zero_commission b) entry_price quantity available_cash None
            = Inr (margin \<le> available_cash, margin)
          \<and> margin + entry_price * quantity * commission_rate (market_spec b) \<noteq> margin"
      by (intro conjI)
  qed
  show "0 < commission_rate (market_spec b) \<and> 0 < leverage (market_spec b) \<and> 0 < entry_price
        \<and> 0 < available_cash
      \<longrightarrow> (let bound = available_cash
                   / (entry_price * (1 / leverage (market_spec b) + commission_rate (market_spec b)));
               zero_bound = available_cash / (entry_price * (1 / leverage (market_spec b) + 0))
           in adjust_quantity_for_cash b entry_price desired_quantity available_cash (Some 0)
                = Inr (min desired_quantity bound)
              \<and> adjust_quantity_for_cash (zero_commission b) entry_price desired_quantity
                  available_cash None
                = Inr (min desired_quantity zero_bound)
              \<and> (bound < desired_quantity \<longrightarrow>
                   adjust_quantity_for_cash b entry_price desired_quantity available_cash (Some 0)
                   \<noteq> adjust_quantity_for_cash (zero_commission b) entry_price desired_quantity
                       available_cash None)
              \<and> (desired_quantity \<le> bound \<longrightarrow>
                   adjust_quantity_for_cash b entry_price desired_quantity available_cash (Some 0)
                   = adjust_quantity_for_cash (zero_commission b) entry_price desired_quantity
                       available_cash None))"
  proof
    let ?l = "leverage (market_spec b)" and ?c = "commission_rate (market_spec b)"
    let ?bound = "available_cash / (entry_price * (1 / ?l + ?c))"
    let ?zero = "available_cash / (entry_price * (1 / ?l + 0))"
    assume hyp: "0 < ?c \<and> 0 < ?l \<and> 0 < entry_price \<and> 0 < available_cash"
    then have h: "0 < ?c" "0 < ?l" "0 < entry_price" "0 < available_cash"
      by simp_all
    have r1: "py_or (Some 0) ?c = ?c" by (simp add: py_or_def)
    have a1: "adjust_quantity_for_cash b entry_price desired_quantity available_cash (Some 0)
              = Inr (min desired_quantity ?bound)"
      using adjust_with_rate [of entry_price b "Some 0" desired_quantity available_cash] h
      by (simp add: r1)
    have zl: "leverage (market_spec (zero_commission b)) = ?l"
      and zc: "commission_rate (market_spec (zero_commission b)) = 0"
      by (simp_all add: zero_commission_def)
    have a0: "adjust_quantity_for_cash (zero_commission b) entry_price desired_quantity
                available_cash None = Inr (min desired_quantity ?zero)"
      using adjust_with_rate [of entry_price "zero_commission b" None desired_quantity available_cash] h
      by (simp add: zl zc py_or_def)
    have p2: "0 < entry_price * (1 / ?l + 0)" using h by simp
    have lt: "entry_price * (1 / ?l + 0) < entry_price * (1 / ?l + ?c)"
      using h(1,3) by (intro mult_strict_left_mono) simp_all
    have below: "?bound < ?zero"
      by (rule div_less_smaller_divisor [OF h(4) p2 lt])
    have differ: "min desired_quantity ?bound \<noteq> min desired_quantity ?zero"
      if "?bound < desired_quantity"
      using that below by (simp add: min_def)
    have same: "min desired_quantity ?bound = min desired_quantity ?zero"
      if "desired_quantity \<le> ?bound"
      using that below by (simp add: min_def)
    show "(let bound = ?bound; zero_bound = ?zero
           in adjust_quantity_for_cash b entry_price desired_quantity available_cash (Some 0)
                = Inr (min desired_quantity bound)
              \<and> adjust_quantity_for_cash (zero_commission b) entry_price desired_quantity
                  available_cash None
                = Inr (min desired_quantity zero_bound)
              \<and> (bound < desired_quantity \<longrightarrow>
                   adjust_quantity_for_cash b entry_price desired_quantity available_cash (Some 0)
                   \<noteq> adjust_quantity_for_cash (zero_commission b) entry_price desired_quantity
                       available_cash None)
              \<and> (desired_quantity \<le> bound \<longrightarrow>
                   adjust_quantity_for_cash b entry_price desired_quantity available_cash (Some 0)
                   = adjust_quantity_for_cash (zero_commission b) entry_price desired_quantity
                       available_cash None))"
      unfolding Let_def a1 a0 using differ same by simp
  qed
qed

theorem explicit_zero_commission_witness:
  "can_afford_position crypto_broker 100 2 1000 (Some 0)
     = can_afford_position crypto_broker 100 2 1000 None
   \<and> can_afford_position crypto_broker 100 2 1000 (Some 0) = Inr (True, 502 / 25)
   \<and> can_afford_position (zero_commission crypto_broker) 100 2 1000 None = Inr (True, 20)
   \<and> adjust_quantity_for_cash crypto_broker 100 500 1000 (Some 0) = Inr (25000 / 251)
   \<and> adjust_quantity_for_cash (zero_commission crypto_broker) 100 500 1000 None = Inr 100
   \<and> adjust_quantity_for_cash crypto_broker 100 1 1000 (Some 0) = Inr 1
   \<and> adjust_quantity_for_cash (zero_commission crypto_broker) 100 1 1000 None = Inr 1"
  using explicit_zero_commission_falls_back [of crypto_broker 100 2 1000 500 20]
    explicit_zero_commission_falls_back [of crypto_broker 100 2 1000 1 20]
  by (auto simp add: Let_def crypto_broker_def crypto_with_rate_def cme_overnight_only_def
        calculate_margin_required_def calculate_margin_def py_div_def)

section \<open>Properties of the training validation\<close>

text \<open>The majority snippet in whole numbers: at least half of the metrics pass.\<close>

lemma get_or_simps:
  "get_or (Some v) dflt = v" "get_or None dflt = dflt"
  by (simp_all add: get_or_def)

lemma majority_rule_iff:
  "majority_rule criteria pvs = (length pvs \<le> 2 * passing_metrics criteria pvs)"
proof -
  have "(real (length pvs) / 2 \<le> real (passing_metrics criteria pvs))
        = (real (length pvs) \<le> real (2 * passing_metrics criteria pvs))"
    by (simp add: field_simps)
  also have "\<dots> = (length pvs \<le> 2 * passing_metrics criteria pvs)"
    by (rule of_nat_le_iff)
  finally show ?thesis by (simp add: majority_rule_def)
qed

text \<open>
  C2, as stated, fails. A suitable, non-skipped permutation test with two metrics of which
  exactly one has a p-value within the maximum passes: the comparison is
  \<^verbatim>\<open>passing_metrics >= len / 2\<close>, so a tie is a pass.
\<close>

theorem metric_majority_counterexample:
  "''permutation'' \<in> set (suitable_tests all_suitable)
   \<and> skipped (permutation mc_tie) = Some False
   \<and> p_values (permutation mc_tie) = Some tie_p_values
   \<and> length tie_p_values = 2
   \<and> passing_metrics criteria_example tie_p_values = 1
   \<and> perm_pass criteria_example mc_tie (suitable_tests all_suitable)
   \<and> \<not> (length tie_p_values < 2 * passing_metrics criteria_example tie_p_values)"
  by (simp add: perm_pass_def majority_rule_iff passing_metrics_def suitable_tests_def
        all_suitable_def suit_def mc_tie_def tie_p_values_def criteria_example_def get_or_def)

text \<open>
  C2, amended. A non-skipped test with a non-empty p-value mapping (for permutation and
  bootstrap: one that is also marked suitable) passes if and only if at least half of its
  per-metric p-values are at most the configured maximum: exactly half of an even number of
  metrics is a pass. The randomized-entry flag is computed from its p-values whatever the
  suitability dict says.
\<close>

theorem metric_majority_at_least_half:
  "(''permutation'' \<in> set st \<and> skipped (permutation mc) \<noteq> Some True
      \<and> p_values (permutation mc) = Some pv \<and> pv \<noteq> []
      \<longrightarrow> perm_pass criteria mc st
          = (length pv \<le> 2 * length (filter (\<lambda>p. p \<le> monte_carlo_p_value_max criteria) (map snd pv))))
   \<and> (''bootstrap'' \<in> set st \<and> skipped (bootstrap mc) \<noteq> Some True
      \<and> p_values (bootstrap mc) = Some pv \<and> pv \<noteq> []
      \<longrightarrow> bootstrap_pass criteria mc st
          = (length pv \<le> 2 * length (filter (\<lambda>p. p \<le> monte_carlo_p_value_max criteria) (map snd pv))))
   \<and> (p_values (randomized_entry mc) = Some pv \<and> pv \<noteq> []
      \<longrightarrow> randomized_pass criteria mc
          = (length pv \<le> 2 * length (filter (\<lambda>p. p \<le> monte_carlo_p_value_max criteria) (map snd pv))))"
proof -
  have not_skipped: "get_or s False = False" if "s \<noteq> Some True" for s
    using that by (cases s) (auto simp: get_or_simps)
  show ?thesis
    by (simp add: perm_pass_def bootstrap_pass_def randomized_pass_def majority_rule_iff
          passing_metrics_def not_skipped get_or_simps Let_def)
qed

theorem metric_majority_witness:
  "perm_pass criteria_example mc_tie (suitable_tests all_suitable)
   \<and> bootstrap_pass criteria_example mc_tie (suitable_tests all_suitable)
   \<and> \<not> randomized_pass criteria_example mc_tie"
  using metric_majority_at_least_half [of "suitable_tests all_suitable" mc_tie tie_p_values criteria_example]
    metric_majority_at_least_half [of "suitable_tests all_suitable" mc_tie three_p_values criteria_example]
    metric_majority_at_least_half [of "suitable_tests all_suitable" mc_tie failing_p_values criteria_example]
  by (simp add: suitable_tests_def all_suitable_def suit_def mc_tie_def tie_p_values_def
        three_p_values_def failing_p_values_def criteria_example_def)

text \<open>Counting in a list without repetitions whose elements are among three names.\<close>

lemma count_among_three:
  assumes "distinct st" and "set st \<subseteq> {a, b, c}" and "a \<noteq> b" "a \<noteq> c" "b \<noteq> c"
  shows "length (filter f st)
         = (if a \<in> set st \<and> f a then 1 else 0) + (if b \<in> set st \<and> f b then 1 else 0)
           + (if c \<in> set st \<and> f c then 1 else (0::nat))"
proof -
  have "distinct (filter f st)" using assms(1) by simp
  then have len: "length (filter f st) = card (set (filter f st))"
    by (rule distinct_card [symmetric])
  have "set (filter f st)
        = (if a \<in> set st \<and> f a then {a} else {}) \<union> (if b \<in> set st \<and> f b then {b} else {})
          \<union> (if c \<in> set st \<and> f c then {c} else {})"
    using assms(2) by auto
  then show ?thesis using assms(3-5) by (simp only: len) simp
qed

lemma py_sum_map: "py_sum (map f xs) = length (filter f xs)"
  by (induction xs) (simp_all add: py_sum_def)

lemma suitable_tests_wf:
  assumes "distinct (map fst ts)" and "set (map fst ts) \<subseteq> N"
  shows "distinct (suitable_tests ts) \<and> set (suitable_tests ts) \<subseteq> N"
proof -
  have "distinct (map fst (filter (\<lambda>(name, suit). suitable suit) ts))"
    using assms(1) by (rule distinct_map_filter)
  moreover have "set (map fst (filter (\<lambda>(name, suit). suitable suit) ts)) \<subseteq> set (map fst ts)"
    by auto
  ultimately show ?thesis using assms(2) by (auto simp: suitable_tests_def)
qed

text \<open>
  C3. For a suitability dict keyed by test names (distinct keys among \<open>permutation\<close>,
  \<open>bootstrap\<close>, \<open>randomized_entry\<close>), let \<open>n\<close> be the number of suitable tests and
  \<open>passes\<close> the number of suitable tests that passed. Then \<open>n\<close> is at most 3 and the
  check \<open>mc_individual_tests\<close> is: at least 2 passes when \<open>n = 3\<close>, at least 1 pass when
  \<open>n = 2\<close>, the one suitable test passed when \<open>n = 1\<close>, and false when \<open>n = 0\<close>.
\<close>

theorem individual_tests_rule:
  assumes "distinct (map fst ts)"
    and "set (map fst ts) \<subseteq> {''permutation'', ''bootstrap'', ''randomized_entry''}"
  shows "(let st = suitable_tests ts;
              n = length st;
              passes = py_sum (map (test_passed criteria mc st) st)
          in n \<le> 3
             \<and> dict_get (check_monte_carlo_suite_conditional criteria mc ts) ''mc_individual_tests'' False
                = (if n = 3 then 2 \<le> passes
                   else if n = 2 then 1 \<le> passes
                   else if n = 1 then passes = 1
                   else False))"
proof -
  let ?st = "suitable_tests ts"
  let ?p = "''permutation''" and ?b = "''bootstrap''" and ?r = "''randomized_entry''"
  let ?P = "perm_pass criteria mc ?st" and ?B = "bootstrap_pass criteria mc ?st"
  let ?R = "randomized_pass criteria mc"
  have wf: "distinct ?st" "set ?st \<subseteq> {?p, ?b, ?r}"
    using suitable_tests_wf [OF assms] by simp_all
  have n: "length ?st = (if ?p \<in> set ?st then 1 else 0) + (if ?b \<in> set ?st then 1 else 0)
                          + (if ?r \<in> set ?st then 1 else 0)"
    using count_among_three [OF wf, of "\<lambda>_. True"] by simp
  have passes: "py_sum (map (test_passed criteria mc ?st) ?st)
              = (if ?p \<in> set ?st \<and> ?P then 1 else 0) + (if ?b \<in> set ?st \<and> ?B then 1 else 0)
                + (if ?r \<in> set ?st \<and> ?R then 1 else 0)"
  proof -
    have tp: "test_passed criteria mc ?st ?p = ?P" "test_passed criteria mc ?st ?b = ?B"
      "test_passed criteria mc ?st ?r = ?R"
      by (simp_all add: test_passed_def)
    have "''permutation'' \<noteq> ''bootstrap''" "''permutation'' \<noteq> ''randomized_entry''"
      "''bootstrap'' \<noteq> ''randomized_entry''"
      by simp_all
    from count_among_three [OF wf this, of "test_passed criteria mc ?st"]
    show ?thesis by (simp only: py_sum_map tp)
  qed
  have check: "dict_get (check_monte_carlo_suite_conditional criteria mc ts) ''mc_individual_tests'' False
       = (if length ?st = 3 then py_sum [?P, ?B, ?R] \<ge> 2
          else if length ?st = 2 then
            py_sum ((if ?p \<in> set ?st then [?P] else []) @ (if ?b \<in> set ?st then [?B] else [])
                  @ (if ?r \<in> set ?st then [?R] else [])) \<ge> 1
          else if length ?st = 1 then (if ?p \<in> set ?st then ?P else if ?b \<in> set ?st then ?B else ?R)
          else False)"
    by (simp add: check_monte_carlo_suite_conditional_def dict_get_def Let_def)
  show ?thesis
    unfolding Let_def check passes
    by (simp only: n) (simp add: py_sum_def)
qed

theorem individual_tests_rule_witness:
  "dict_get (check_monte_carlo_suite_conditional criteria_example mc_tie all_suitable) ''mc_individual_tests'' False
   \<and> dict_get (check_monte_carlo_suite_conditional criteria_example mc_tie two_suitable) ''mc_individual_tests'' False
   \<and> \<not> dict_get (check_monte_carlo_suite_conditional criteria_example mc_tie one_suitable) ''mc_individual_tests'' False
   \<and> \<not> dict_get (check_monte_carlo_suite_conditional criteria_example mc_tie []) ''mc_individual_tests'' False"
  using individual_tests_rule [of all_suitable criteria_example mc_tie]
    individual_tests_rule [of two_suitable criteria_example mc_tie]
    individual_tests_rule [of one_suitable criteria_example mc_tie]
    individual_tests_rule [of "[]" criteria_example mc_tie]
  by (simp add: Let_def suitable_tests_def all_suitable_def two_suitable_def one_suitable_def suit_def
        py_sum_def test_passed_def perm_pass_def bootstrap_pass_def randomized_pass_def
        majority_rule_iff passing_metrics_def get_or_simps
        mc_tie_def tie_p_values_def three_p_values_def failing_p_values_def criteria_example_def)

text \<open>
  Lookup after an assignment and after a merge; the keys \<^verbatim>\<open>_check_sensitivity\<close> writes all
  start with \<open>sensitivity_\<close>, so the merge leaves the Monte Carlo checks as they are.
\<close>

lemma dict_get_set:
  "dict_get (dict_set d k v) k' dflt = (if k' = k then v else dict_get d k' dflt)"
  by (simp add: dict_get_def dict_set_def update_conv')

lemma keys_dict_set: "fst ` set (dict_set d k v) = insert k (fst ` set d)"
  by (simp add: dict_set_def dom_update)

lemma dict_get_merge_other:
  "k \<notin> fst ` set b \<Longrightarrow> dict_get (dict_merge a b) k dflt = dict_get a k dflt"
proof (induction b arbitrary: a)
  case Nil
  then show ?case by (simp add: dict_merge_def)
next
  case (Cons e b)
  obtain k' v' where e: "e = (k', v')" by (cases e)
  from Cons.prems e have ne: "k \<noteq> k'" and rest: "k \<notin> fst ` set b" by auto
  have "dict_get (dict_merge a (e # b)) k dflt = dict_get (dict_merge (dict_set a k' v') b) k dflt"
    by (simp add: dict_merge_def e)
  also have "\<dots> = dict_get (dict_set a k' v') k dflt"
    by (rule Cons.IH [OF rest])
  also have "\<dots> = dict_get a k dflt"
    using ne by (simp add: dict_get_set)
  finally show ?case .
qed

lemma sensitivity_loop_keys:
  "fst ` set (foldl (\<lambda>checks (param_name, cv).
                       dict_set checks (''sensitivity_'' @ param_name @ ''_cv'') (g cv)) d sa)
   \<subseteq> fst ` set d \<union> {''sensitivity_'' @ rest | rest. True}"
proof (induction sa arbitrary: d)
  case Nil
  then show ?case by simp
next
  case (Cons e sa)
  obtain pn cv where e: "e = (pn, cv)" by (cases e)
  show ?case
    using Cons.IH [of "dict_set d (''sensitivity_'' @ pn @ ''_cv'') (g cv)"]
    by (auto simp add: e keys_dict_set)
qed

lemma check_sensitivity_keys:
  assumes "k \<in> fst ` set (check_sensitivity criteria sr)"
  shows "\<exists>rest. k = ''sensitivity_'' @ rest"
proof (cases sr)
  case None
  with assms show ?thesis by (simp add: check_sensitivity_def)
next
  case (Some r)
  let ?loop = "foldl (\<lambda>checks (param_name, cv).
                   dict_set checks (''sensitivity_'' @ param_name @ ''_cv'') (cv_within criteria cv))
                 [] (get_or (sensitivity_analysis r) [])"
  from assms Some have "k = ''sensitivity_cv'' \<or> k \<in> fst ` set ?loop"
    by (simp add: check_sensitivity_def Let_def keys_dict_set)
  then show ?thesis
  proof
    assume "k = ''sensitivity_cv''"
    then have "k = ''sensitivity_'' @ ''cv''" by simp
    then show ?thesis by (rule exI)
  next
    assume "k \<in> fst ` set ?loop"
    with sensitivity_loop_keys [of "cv_within criteria" "[]" "get_or (sensitivity_analysis r) []"]
    show ?thesis by auto
  qed
qed

lemma check_sensitivity_not_mc:
  assumes "k \<in> {''mc_score'', ''mc_percentile'', ''mc_individual_tests''}"
  shows "k \<notin> fst ` set (check_sensitivity criteria sr)"
proof
  assume "k \<in> fst ` set (check_sensitivity criteria sr)"
  then obtain rest where "k = ''sensitivity_'' @ rest"
    using check_sensitivity_keys by blast
  with assms show False by auto
qed

lemma quality_checks_shape:
  "check_backtest_quality criteria result em
   = [(''min_profit_factor'', dict_get em ''profit_factor'' 0 \<ge> training_min_profit_factor criteria),
      (''min_sharpe'', dict_get em ''sharpe_ratio'' 0 \<ge> training_min_sharpe criteria),
      (''min_trades'', total_trades result \<ge> training_min_trades criteria)]"
  by (simp add: check_backtest_quality_def Let_def)

lemma mc_checks_shape:
  "\<exists>z. check_monte_carlo_suite_conditional criteria mc ts
       = [(''mc_score'', dict_get (combined mc) ''score'' 0 \<ge> min_mc_score criteria),
          (''mc_percentile'', dict_get (combined mc) ''percentile'' 0 \<ge> min_mc_percentile criteria),
          (''mc_individual_tests'', z)]"
  unfolding check_monte_carlo_suite_conditional_def Let_def by (rule exI) (rule refl)

lemma merge_quality_mc:
  assumes "k \<in> {''mc_score'', ''mc_percentile'', ''mc_individual_tests''}"
  shows "dict_get (dict_merge [(''min_profit_factor'', a), (''min_sharpe'', b), (''min_trades'', c)]
                     [(''mc_score'', x), (''mc_percentile'', y), (''mc_individual_tests'', z)]) k False
         = dict_get [(''mc_score'', x), (''mc_percentile'', y), (''mc_individual_tests'', z)] k False"
  using assms by (auto simp add: dict_merge_def dict_set_def dict_get_def)

lemma all_checks_mc:
  assumes "k \<in> {''mc_score'', ''mc_percentile'', ''mc_individual_tests''}"
  shows "dict_get (dict_merge (dict_merge (check_backtest_quality criteria result em)
                      (check_monte_carlo_suite_conditional criteria mc ts))
                      (check_sensitivity criteria sr)) k False
         = dict_get (check_monte_carlo_suite_conditional criteria mc ts) k False"
    and "dict_get (dict_merge (dict_merge (check_backtest_quality criteria result em)
                      (check_monte_carlo_suite_conditional criteria mc ts)) []) k False
         = dict_get (check_monte_carlo_suite_conditional criteria mc ts) k False"
proof -
  obtain z where m: "check_monte_carlo_suite_conditional criteria mc ts
       = [(''mc_score'', dict_get (combined mc) ''score'' 0 \<ge> min_mc_score criteria),
          (''mc_percentile'', dict_get (combined mc) ''percentile'' 0 \<ge> min_mc_percentile criteria),
          (''mc_individual_tests'', z)]"
    using mc_checks_shape by blast
  have inner: "dict_get (dict_merge (check_backtest_quality criteria result em)
                      (check_monte_carlo_suite_conditional criteria mc ts)) k False
        = dict_get (check_monte_carlo_suite_conditional criteria mc ts) k False"
    unfolding m quality_checks_shape using assms by (rule merge_quality_mc)
  have "k \<notin> fst ` set (check_sensitivity criteria sr)"
    using assms by (rule check_sensitivity_not_mc)
  then have "dict_get (dict_merge (dict_merge (check_backtest_quality criteria result em)
                      (check_monte_carlo_suite_conditional criteria mc ts))
                      (check_sensitivity criteria sr)) k False
      = dict_get (dict_merge (check_backtest_quality criteria result em)
                      (check_monte_carlo_suite_conditional criteria mc ts)) k False"
    by (rule dict_get_merge_other)
  with inner show "dict_get (dict_merge (dict_merge (check_backtest_quality criteria result em)
                      (check_monte_carlo_suite_conditional criteria mc ts))
                      (check_sensitivity criteria sr)) k False
         = dict_get (check_monte_carlo_suite_conditional criteria mc ts) k False"
    by simp
  from inner show "dict_get (dict_merge (dict_merge (check_backtest_quality criteria result em)
                      (check_monte_carlo_suite_conditional criteria mc ts)) []) k False
         = dict_get (check_monte_carlo_suite_conditional criteria mc ts) k False"
    by (simp add: dict_merge_def)
qed

text \<open>
  C4. \<open>passed\<close> is the conjunction of the three quality checks (profit factor, Sharpe
  ratio and trade count at or above their thresholds), the Monte Carlo score check, the
  Monte Carlo percentile check and the individual-tests check; and two runs that differ
  only in whether sensitivity analysis ran, on which parameters and with what outcome have
  the same \<open>passed\<close>.
\<close>

theorem passed_is_conjunction:
  "passed (validate criteria result em ts mc run_sensitivity sensitivity_params run_sens)
     = ((dict_get (check_backtest_quality criteria result em) ''min_profit_factor'' False
         \<and> dict_get (check_backtest_quality criteria result em) ''min_sharpe'' False
         \<and> dict_get (check_backtest_quality criteria result em) ''min_trades'' False)
        \<and> dict_get (check_monte_carlo_suite_conditional criteria mc ts) ''mc_score'' False
        \<and> dict_get (check_monte_carlo_suite_conditional criteria mc ts) ''mc_percentile'' False
        \<and> dict_get (check_monte_carlo_suite_conditional criteria mc ts) ''mc_individual_tests'' False)
   \<and> passed (validate criteria result em ts mc run_sensitivity sensitivity_params run_sens)
     = ((dict_get em ''profit_factor'' 0 \<ge> training_min_profit_factor criteria
         \<and> dict_get em ''sharpe_ratio'' 0 \<ge> training_min_sharpe criteria
         \<and> total_trades result \<ge> training_min_trades criteria)
        \<and> dict_get (combined mc) ''score'' 0 \<ge> min_mc_score criteria
        \<and> dict_get (combined mc) ''percentile'' 0 \<ge> min_mc_percentile criteria
        \<and> dict_get (check_monte_carlo_suite_conditional criteria mc ts) ''mc_individual_tests'' False)
   \<and> passed (validate criteria result em ts mc run_sensitivity sensitivity_params run_sens)
     = passed (validate criteria result em ts mc run_sensitivity' sensitivity_params' run_sens')"
proof -
  let ?q = "check_backtest_quality criteria result em"
  let ?m = "check_monte_carlo_suite_conditional criteria mc ts"
  obtain z where m: "?m
       = [(''mc_score'', dict_get (combined mc) ''score'' 0 \<ge> min_mc_score criteria),
          (''mc_percentile'', dict_get (combined mc) ''percentile'' 0 \<ge> min_mc_percentile criteria),
          (''mc_individual_tests'', z)]"
    using mc_checks_shape by blast
  have quality: "list_all snd ?q
       = (dict_get ?q ''min_profit_factor'' False \<and> dict_get ?q ''min_sharpe'' False
          \<and> dict_get ?q ''min_trades'' False)"
    by (simp add: quality_checks_shape dict_get_def)
  have core: "passed (validate criteria result em ts mc rs sp rn)
       = (list_all snd ?q \<and> (dict_get ?m ''mc_score'' False \<and> dict_get ?m ''mc_percentile'' False)
          \<and> dict_get ?m ''mc_individual_tests'' False)"
    for rs and sp :: "'x dict option" and rn
    by (simp add: validate_def Let_def all_checks_mc)
  have explicit: "dict_get ?q ''min_profit_factor'' False
         = (dict_get em ''profit_factor'' 0 \<ge> training_min_profit_factor criteria)"
    "dict_get ?q ''min_sharpe'' False = (dict_get em ''sharpe_ratio'' 0 \<ge> training_min_sharpe criteria)"
    "dict_get ?q ''min_trades'' False = (total_trades result \<ge> training_min_trades criteria)"
    "dict_get ?m ''mc_score'' False = (dict_get (combined mc) ''score'' 0 \<ge> min_mc_score criteria)"
    "dict_get ?m ''mc_percentile'' False
         = (dict_get (combined mc) ''percentile'' 0 \<ge> min_mc_percentile criteria)"
    by (simp_all add: quality_checks_shape m dict_get_def)
  show ?thesis
    by (simp only: core quality explicit) simp
qed

theorem passed_is_conjunction_witness:
  "passed (validate criteria_example backtest_example metrics_example all_suitable mc_tie
            True (Some [(''fast_period'', [5, 10])]) sensitivity_fragile)
   \<and> passed (validate criteria_example backtest_example metrics_example all_suitable mc_tie
            False None sensitivity_fragile)
   \<and> check_sensitivity criteria_example (Some (sensitivity_fragile [(''fast_period'', [5, 10])]))
       = [(''sensitivity_fast_period_cv'', False), (''sensitivity_cv'', False)]"
proof -
  have mc: "check_monte_carlo_suite_conditional criteria_example mc_tie all_suitable
            = [(''mc_score'', True), (''mc_percentile'', True), (''mc_individual_tests'', True)]"
    by (simp add: check_monte_carlo_suite_conditional_def Let_def suitable_tests_def
          all_suitable_def suit_def py_sum_def perm_pass_def bootstrap_pass_def
          randomized_pass_def majority_rule_iff passing_metrics_def get_or_simps mc_tie_def
          tie_p_values_def three_p_values_def failing_p_values_def criteria_example_def
          dict_get_def)
  have q: "check_backtest_quality criteria_example backtest_example metrics_example
            = [(''min_profit_factor'', True), (''min_sharpe'', True), (''min_trades'', True)]"
    by (simp add: quality_checks_shape criteria_example_def backtest_example_def
          metrics_example_def dict_get_def)
  have s: "check_sensitivity criteria_example (Some (sensitivity_fragile [(''fast_period'', [5, 10])]))
       = [(''sensitivity_fast_period_cv'', False), (''sensitivity_cv'', False)]"
    by (simp add: check_sensitivity_def sensitivity_fragile_def get_or_simps Let_def dict_set_def
          cv_within_def criteria_example_def)
  note inst = passed_is_conjunction [of criteria_example backtest_example metrics_example
      all_suitable mc_tie True "Some [(''fast_period'', [5, 10])]" sensitivity_fragile False None
      sensitivity_fragile]
  have p1: "passed (validate criteria_example backtest_example metrics_example all_suitable mc_tie
            True (Some [(''fast_period'', [5, 10])]) sensitivity_fragile)"
    using inst [THEN conjunct1] by (simp add: mc q dict_get_def)
  have p2: "passed (validate criteria_example backtest_example metrics_example all_suitable mc_tie
            False None sensitivity_fragile)"
    using inst [THEN conjunct2, THEN conjunct2] p1 by simp
  from p1 p2 s show ?thesis by simp
qed

section \<open>Properties of the live trading engine\<close>

text \<open>The safety check and the position update leave the trade counters alone.\<close>

lemma check_safety_limits_counters:
  assumes "check_safety_limits self adapter = Inr (stop, self1)"
  shows "trades_executed self1 = trades_executed self \<and> trades_skipped self1 = trades_skipped self"
  using assms
  by (auto simp add: check_safety_limits_def Let_def split: sum.splits if_splits)

lemma update_positions_counters:
  assumes "update_positions self adapter = Inr self1"
  shows "trades_executed self1 = trades_executed self \<and> trades_skipped self1 = trades_skipped self"
  using assms by (auto simp add: update_positions_def split: sum.splits)

lemma entry_order_failure:
  assumes "sig_quantity signal = Some q" and "0 < q"
    and "map_of (active_positions self) (eng_symbol self) = None"
    and "balance_for_entry adapter = Inr balance" and "0 < available_balance balance"
    and "spec_margin current_price q = Inr margin" and "margin \<le> available_balance balance"
    and "market_order_response adapter = Inl e"
  shows "process_entry_signal spec_margin self adapter signal current_price
         = Inr (self\<lparr>trades_skipped := trades_skipped self + 1\<rparr>)"
  using assms by (simp add: process_entry_signal_def)

text \<open>
  C9. When the entry signal reaches the order placement (a positive quantity, no open
  position, a positive available balance that covers the margin) and the adapter's
  \<^verbatim>\<open>place_market_order\<close> raises, \<^verbatim>\<open>_process_entry_signal\<close> returns normally with
  \<open>trades_skipped\<close> one higher and nothing else changed; and a \<^verbatim>\<open>process_signal\<close> run
  that gets there with a BUY or SELL signal returns normally as well, with
  \<open>trades_skipped\<close> one higher than at its start and \<open>trades_executed\<close> as at its start.
\<close>

theorem order_failure_counts_as_skipped:
  assumes "sig_quantity signal = Some q" and "0 < q"
    and "map_of (active_positions self) (eng_symbol self) = None"
    and "balance_for_entry adapter = Inr balance" and "0 < available_balance balance"
    and "spec_margin current_price q = Inr margin" and "margin \<le> available_balance balance"
    and "market_order_response adapter = Inl e"
  shows "(\<exists>self'. process_entry_signal spec_margin self adapter signal current_price = Inr self'
            \<and> self' = self\<lparr>trades_skipped := trades_skipped self + 1\<rparr>
            \<and> trades_skipped self' = trades_skipped self + 1
            \<and> trades_executed self' = trades_executed self)
         \<and> (sig_action signal = Some action \<and> (action = ''BUY'' \<or> action = ''SELL'')
              \<and> check_safety_limits self0 adapter = Inr (False, self1)
              \<and> update_positions self1 adapter = Inr self
            \<longrightarrow> (\<exists>self'. process_signal spec_margin self0 adapter signal current_price = Inr self'
                   \<and> trades_skipped self' = trades_skipped self0 + 1
                   \<and> trades_executed self' = trades_executed self0))"
proof (intro conjI impI)
  have entry: "process_entry_signal spec_margin self adapter signal current_price
         = Inr (self\<lparr>trades_skipped := trades_skipped self + 1\<rparr>)"
    using assms by (rule entry_order_failure)
  then show "\<exists>self'. process_entry_signal spec_margin self adapter signal current_price = Inr self'
            \<and> self' = self\<lparr>trades_skipped := trades_skipped self + 1\<rparr>
            \<and> trades_skipped self' = trades_skipped self + 1
            \<and> trades_executed self' = trades_executed self"
    by simp
  assume path: "sig_action signal = Some action \<and> (action = ''BUY'' \<or> action = ''SELL'')
              \<and> check_safety_limits self0 adapter = Inr (False, self1)
              \<and> update_positions self1 adapter = Inr self"
  then have act: "sig_action signal = Some action" "action = ''BUY'' \<or> action = ''SELL''"
    and safe: "check_safety_limits self0 adapter = Inr (False, self1)"
    and upd: "update_positions self1 adapter = Inr self"
    by simp_all
  from act(2) have ne: "action \<noteq> []" "action \<noteq> ''CLOSE''" "action \<in> set [''BUY'', ''SELL'']"
    by auto
  have run: "process_signal spec_margin self0 adapter signal current_price
         = Inr (self\<lparr>trades_skipped := trades_skipped self + 1\<rparr>)"
    using act(1) ne safe upd entry by (simp add: process_signal_def)
  have same: "trades_executed self = trades_executed self0" "trades_skipped self = trades_skipped self0"
    using check_safety_limits_counters [OF safe] update_positions_counters [OF upd] by simp_all
  show "\<exists>self'. process_signal spec_margin self0 adapter signal current_price = Inr self'
                   \<and> trades_skipped self' = trades_skipped self0 + 1
                   \<and> trades_executed self' = trades_executed self0"
    using run same by simp
qed

theorem order_failure_witness:
  "process_entry_signal margin_example engine_example adapter_rejecting signal_buy 100
     = Inr (engine_example\<lparr>trades_skipped := 2\<rparr>)
   \<and> (\<exists>self'. process_signal margin_example engine_example adapter_rejecting signal_buy 100 = Inr self'
         \<and> trades_skipped self' = 2 \<and> trades_executed self' = 3)"
  using order_failure_counts_as_skipped [of signal_buy 2 engine_example adapter_rejecting
      "\<lparr>total_balance = 10000, available_balance = 5000\<rparr>" margin_example 100 20
      "AdapterError ''order rejected''" "''BUY''" engine_example engine_example]
  by (simp add: engine_example_def adapter_rejecting_def signal_buy_def margin_example_def
        calculate_margin_def py_div_def crypto_with_rate_def cme_overnight_only_def
        check_safety_limits_def update_positions_def Let_def)

end
